theory Spec2Isabelle
  imports Complex_Main "HOL-Library.Multiset"
begin

text \<open>
  PantryChef recommends recipes from a user's pantry and restrictions. The computation is the
  SQL view \<^verbatim>\<open>recipe_recommendations\<close> of the migration script, which the dashboard reads with one
  query per user. This theory embeds the tables, the view clause by clause, the dashboard's
  query and the pantry page's insert, and proves what the view returns.
\<close>

section \<open>The tables of the migration script\<close>

text \<open>
  The schema is the SQL of the migration script (\<^verbatim>\<open>CREATE TABLE public.profiles\<close> and
  the tables after it). A row is a record whose fields carry the table's alias in the view
  as a prefix (\<^verbatim>\<open>r.id\<close> is \<open>r_id\<close>, \<^verbatim>\<open>rc.ingredient_id\<close> is \<open>rc_ingredient_id\<close>);
  a nullable column is an \<open>option\<close>, \<open>None\<close> being SQL's NULL. A UUID is an opaque
  identifier, here a natural number. \<^verbatim>\<open>DECIMAL(10,2)\<close> quantities are rationals. The
  timestamp columns (\<^verbatim>\<open>created_at\<close>, \<^verbatim>\<open>updated_at\<close>, \<^verbatim>\<open>added_at\<close>) are filled by
  \<^verbatim>\<open>DEFAULT NOW()\<close> and read by nothing; they are left out.
\<close>

type_synonym uuid = nat

record profile =
  p_id :: uuid
  p_email :: string
  p_full_name :: "string option"

record ingredient =
  i_id :: uuid
  i_name :: string
  i_category :: "string option"

record recipe =
  r_id :: uuid
  r_title :: string
  r_description :: "string option"
  r_instructions :: "string option"
  r_prep_time :: "int option"
  r_cook_time :: "int option"
  r_servings :: "int option"
  r_image_url :: "string option"

record pantry_entry =
  up_id :: uuid
  up_user_id :: uuid
  up_ingredient_id :: uuid
  up_quantity :: "rat option"
  up_unit :: "string option"

record recipe_component =
  rc_id :: uuid
  rc_recipe_id :: uuid
  rc_ingredient_id :: uuid
  rc_quantity :: rat
  rc_unit :: "string option"

datatype restriction_type = Allergy | Dietary

record restriction =
  ur_id :: uuid
  ur_user_id :: uuid
  ur_ingredient_id :: uuid
  ur_restriction_type :: restriction_type
  ur_notes :: "string option"

text \<open>
  The database: one list of rows per table, in the table's scan order. The theorems below hold
  for every value of this record, so they hold for the tables whatever rows the row-level
  security policies let the view read.
\<close>

record database =
  profiles :: "profile list"
  ingredients :: "ingredient list"
  recipes :: "recipe list"
  user_pantry :: "pantry_entry list"
  recipe_components :: "recipe_component list"
  user_restrictions :: "restriction list"

section \<open>The view \<^verbatim>\<open>recipe_recommendations\<close>\<close>

text \<open>
  A row of the \<^verbatim>\<open>FROM\<close> clause: \<^verbatim>\<open>r\<close>, \<^verbatim>\<open>rc\<close>, \<^verbatim>\<open>i\<close>, \<^verbatim>\<open>p\<close> and the
  \<^verbatim>\<open>LEFT JOIN\<close>ed \<^verbatim>\<open>up\<close>, which is \<open>None\<close> where the join found no pantry row (all of
  its columns are then NULL).
\<close>

type_synonym joined = "recipe \<times> recipe_component \<times> ingredient \<times> profile \<times> pantry_entry option"

text \<open>
  \<^verbatim>\<open>LEFT JOIN public.user_pantry up ON rc.ingredient_id = up.ingredient_id AND p.id = up.user_id\<close>:
  every matching pantry row, or one NULL-extended row when there is none.
\<close>

definition left_join_user_pantry :: "database \<Rightarrow> recipe_component \<Rightarrow> profile \<Rightarrow> pantry_entry option list" where
  "left_join_user_pantry db rc p =
     (let matching = filter (\<lambda>up. rc_ingredient_id rc = up_ingredient_id up \<and> p_id p = up_user_id up)
                            (user_pantry db)
      in if matching = [] then [None] else map Some matching)"

text \<open>
  \<^verbatim>\<open>FROM recipes r INNER JOIN recipe_components rc ON r.id = rc.recipe_id
  INNER JOIN ingredients i ON rc.ingredient_id = i.id CROSS JOIN profiles p LEFT JOIN user_pantry up ...\<close>
\<close>

definition from_clause :: "database \<Rightarrow> joined list" where
  "from_clause db =
     [(r, rc, i, p, up).
        r \<leftarrow> recipes db,
        rc \<leftarrow> recipe_components db, r_id r = rc_recipe_id rc,
        i \<leftarrow> ingredients db, rc_ingredient_id rc = i_id i,
        p \<leftarrow> profiles db,
        up \<leftarrow> left_join_user_pantry db rc p]"

text \<open>
  \<^verbatim>\<open>WHERE NOT EXISTS (SELECT 1 FROM user_restrictions ur WHERE ur.user_id = p.id
  AND ur.ingredient_id = rc.ingredient_id)\<close>: the condition is evaluated for each joined row,
  on that row's \<^verbatim>\<open>p\<close> and \<^verbatim>\<open>rc\<close>.
\<close>

definition where_clause :: "database \<Rightarrow> joined \<Rightarrow> bool" where
  "where_clause db = (\<lambda>(r, rc, i, p, up).
     \<not> list_ex (\<lambda>ur. ur_user_id ur = p_id p \<and> ur_ingredient_id ur = rc_ingredient_id rc)
                (user_restrictions db))"

text \<open>
  \<^verbatim>\<open>GROUP BY r.id, r.title, r.description, r.instructions, r.prep_time, r.cook_time,
  r.servings, r.image_url, up.user_id\<close>. The last column is the pantry row's user, NULL on
  a NULL-extended row; \<^verbatim>\<open>GROUP BY\<close> puts NULLs in one group, as \<open>None = None\<close> does.
\<close>

type_synonym group_key =
  "uuid \<times> string \<times> string option \<times> string option \<times> int option \<times> int option \<times> int option \<times> string option \<times> uuid option"

definition group_by :: "joined \<Rightarrow> group_key" where
  "group_by = (\<lambda>(r, rc, i, p, up).
     (r_id r, r_title r, r_description r, r_instructions r, r_prep_time r, r_cook_time r,
      r_servings r, r_image_url r, map_option up_user_id up))"

text \<open>\<^verbatim>\<open>COUNT(DISTINCT e)\<close>: the number of distinct non-NULL values of \<^verbatim>\<open>e\<close> in the group.\<close>

definition count_distinct :: "'a option list \<Rightarrow> nat" where
  "count_distinct vs = length (remdups [v. Some v \<leftarrow> vs])"

text \<open>\<^verbatim>\<open>NULLIF(a, b)\<close> is NULL when \<^verbatim>\<open>a = b\<close>, else \<^verbatim>\<open>a\<close>.\<close>

definition nullif :: "nat \<Rightarrow> nat \<Rightarrow> nat option" where
  "nullif a b = (if a = b then None else Some a)"

text \<open>
  \<^verbatim>\<open>ROUND(x, 2)\<close> on \<^verbatim>\<open>numeric\<close>: to two decimal places, a tie away from zero. The
  quotient is taken exactly here; PostgreSQL's \<^verbatim>\<open>numeric\<close> division keeps at least sixteen
  significant digits before the rounding.
\<close>

definition round2 :: "rat \<Rightarrow> rat" where
  "round2 x = (if 0 \<le> x then of_int \<lfloor>x * 100 + 1 / 2\<rfloor> / 100
               else - (of_int \<lfloor>- x * 100 + 1 / 2\<rfloor> / 100))"

text \<open>
  \<^verbatim>\<open>ROUND(CAST(COUNT(DISTINCT up.ingredient_id) AS DECIMAL) /
  NULLIF(COUNT(DISTINCT rc.ingredient_id), 0) * 100, 2)\<close>: a NULL divisor makes the whole
  expression NULL.
\<close>

definition v_score_expr :: "nat \<Rightarrow> nat \<Rightarrow> rat option" where
  "v_score_expr n_owned n_total =
     (case nullif n_total 0 of
        None \<Rightarrow> None
      | Some d \<Rightarrow> Some (round2 (of_nat n_owned / of_nat d * 100)))"

text \<open>
  \<^verbatim>\<open>ARRAY_AGG(DISTINCT e)\<close>: the distinct values of \<^verbatim>\<open>e\<close>, NULLs included, and NULL when no
  row reaches the aggregate. SQL leaves the order of the elements open (PostgreSQL sorts them
  to find the duplicates); the model keeps one copy of each value, at its last occurrence, and
  the order of a non-NULL array in the examples below is that choice.
\<close>

definition array_agg_distinct :: "'a list \<Rightarrow> 'a list option" where
  "array_agg_distinct vs = (if vs = [] then None else Some (remdups vs))"

text \<open>
  \<^verbatim>\<open>ARRAY_AGG(DISTINCT CASE WHEN up.ingredient_id IS NULL THEN i.name ELSE NULL END)
  FILTER (WHERE up.ingredient_id IS NULL)\<close>. \<^verbatim>\<open>up.ingredient_id\<close> is a \<^verbatim>\<open>NOT NULL\<close> column,
  so it is NULL exactly on a NULL-extended row.
\<close>

definition missing_ingredients_expr :: "joined list \<Rightarrow> string option list option" where
  "missing_ingredients_expr g =
     array_agg_distinct
       (map (\<lambda>(r, rc, i, p, up). if map_option up_ingredient_id up = None then Some (i_name i) else None)
            (filter (\<lambda>(r, rc, i, p, up). map_option up_ingredient_id up = None) g))"

definition total_ingredients_expr :: "joined list \<Rightarrow> nat" where
  "total_ingredients_expr g = count_distinct (map (\<lambda>(r, rc, i, p, up). Some (rc_ingredient_id rc)) g)"

definition owned_ingredients_expr :: "joined list \<Rightarrow> nat" where
  "owned_ingredients_expr g = count_distinct (map (\<lambda>(r, rc, i, p, up). map_option up_ingredient_id up) g)"

text \<open>A row of the view. The column \<^verbatim>\<open>id\<close> is \<open>rid\<close> here.\<close>

record recommendation =
  rid :: uuid
  title :: string
  description :: "string option"
  instructions :: "string option"
  prep_time :: "int option"
  cook_time :: "int option"
  servings :: "int option"
  image_url :: "string option"
  user_id :: "uuid option"
  v_score :: "rat option"
  missing_ingredients :: "string option list option"
  total_ingredients :: nat
  owned_ingredients :: nat

text \<open>The \<^verbatim>\<open>SELECT\<close> list, on one group \<open>g\<close> with key \<open>k\<close>.\<close>

definition select_list :: "group_key \<Rightarrow> joined list \<Rightarrow> recommendation" where
  "select_list = (\<lambda>(k_id, k_title, k_description, k_instructions, k_prep_time, k_cook_time,
                    k_servings, k_image_url, k_user_id) g.
     \<lparr> rid = k_id, title = k_title, description = k_description, instructions = k_instructions,
       prep_time = k_prep_time, cook_time = k_cook_time, servings = k_servings,
       image_url = k_image_url, user_id = k_user_id,
       v_score = v_score_expr (owned_ingredients_expr g) (total_ingredients_expr g),
       missing_ingredients = missing_ingredients_expr g,
       total_ingredients = total_ingredients_expr g,
       owned_ingredients = owned_ingredients_expr g \<rparr>)"

text \<open>\<^verbatim>\<open>HAVING COUNT(DISTINCT rc.ingredient_id) > 0\<close>\<close>

definition having_clause :: "joined list \<Rightarrow> bool" where
  "having_clause g = (total_ingredients_expr g > 0)"

text \<open>
  The groups of the view: the joined rows that pass \<^verbatim>\<open>WHERE\<close>, split by their
  \<^verbatim>\<open>GROUP BY\<close> key. SQL leaves the order of the groups open; the model lists them by the
  last row of each.
\<close>

definition groups :: "database \<Rightarrow> (group_key \<times> joined list) list" where
  "groups db =
     (let rows = filter (where_clause db) (from_clause db)
      in map (\<lambda>k. (k, filter (\<lambda>j. group_by j = k) rows)) (remdups (map group_by rows)))"

definition recipe_recommendations :: "database \<Rightarrow> recommendation list" where
  "recipe_recommendations db =
     map (\<lambda>(k, g). select_list k g) (filter (\<lambda>(k, g). having_clause g) (groups db))"

section \<open>The dashboard's query\<close>

text \<open>
  \<^verbatim>\<open>.order('v_score', { ascending: false })\<close> is \<^verbatim>\<open>ORDER BY v_score DESC\<close>, which puts
  NULLs first. \<open>score_ge a b\<close>: \<open>a\<close> may stand before \<open>b\<close>.
\<close>

fun score_ge :: "rat option \<Rightarrow> rat option \<Rightarrow> bool" where
  "score_ge None _ = True"
| "score_ge (Some a) None = False"
| "score_ge (Some a) (Some b) = (b \<le> a)"

text \<open>
  The sort has \<^verbatim>\<open>v_score\<close> as its only key, so SQL leaves the order of rows of equal score
  open. The model is an insertion sort; where it puts rows of equal score is its own choice,
  and no theorem below states it.
\<close>

fun insert_desc :: "recommendation \<Rightarrow> recommendation list \<Rightarrow> recommendation list" where
  "insert_desc x [] = [x]"
| "insert_desc x (y # ys) =
     (if score_ge (v_score x) (v_score y) then x # y # ys else y # insert_desc x ys)"

definition order_desc :: "recommendation list \<Rightarrow> recommendation list" where
  "order_desc xs = foldr insert_desc xs []"


text \<open>
  \<^verbatim>\<open>supabase.from('recipe_recommendations').select('*').eq('user_id', userId)
  .order('v_score', { ascending: false })\<close>. The comparison \<^verbatim>\<open>user_id = userId\<close> is not true on a
  NULL \<^verbatim>\<open>user_id\<close>. The model is the answer of the database; when the request itself fails the
  page shows a toast and keeps the list it had.
\<close>

definition fetchRecommendations :: "database \<Rightarrow> uuid \<Rightarrow> recommendation list" where
  "fetchRecommendations db userId =
     order_desc (filter (\<lambda>row. user_id row = Some userId) (recipe_recommendations db))"

text \<open>The Requirement Set of a recipe: the distinct ingredients of its components.\<close>

definition requirement_set :: "database \<Rightarrow> uuid \<Rightarrow> uuid list" where
  "requirement_set db recipe_id =
     remdups (map rc_ingredient_id (filter (\<lambda>rc. rc_recipe_id rc = recipe_id) (recipe_components db)))"

section \<open>Adding to the pantry\<close>

text \<open>
  \<^verbatim>\<open>INSERT INTO user_pantry\<close> under the table's constraints: the primary key \<^verbatim>\<open>id\<close>, the
  foreign keys to \<^verbatim>\<open>profiles(id)\<close> and \<^verbatim>\<open>ingredients(id)\<close>, and
  \<^verbatim>\<open>UNIQUE(user_id, ingredient_id)\<close>. A violated constraint leaves the table as it was. The
  range check and the rounding of \<^verbatim>\<open>DECIMAL(10,2)\<close> on \<^verbatim>\<open>quantity\<close> are not modelled: the view
  reads no quantity.
\<close>

datatype error = NoIngredientSelected | NotAuthenticated | UniqueViolation | ForeignKeyViolation

definition insert_user_pantry :: "database \<Rightarrow> pantry_entry \<Rightarrow> error + database" where
  "insert_user_pantry db e =
     (if list_ex (\<lambda>x. up_id x = up_id e) (user_pantry db) then Inl UniqueViolation
      else if list_ex (\<lambda>x. up_user_id x = up_user_id e \<and> up_ingredient_id x = up_ingredient_id e)
                      (user_pantry db) then Inl UniqueViolation
      else if \<not> list_ex (\<lambda>p. p_id p = up_user_id e) (profiles db) then Inl ForeignKeyViolation
      else if \<not> list_ex (\<lambda>i. i_id i = up_ingredient_id e) (ingredients db) then Inl ForeignKeyViolation
      else Inr (db\<lparr>user_pantry := user_pantry db @ [e]\<rparr>))"

text \<open>
  \<^verbatim>\<open>addToPantry\<close> of the pantry page. \<open>user\<close> is the signed-in user (\<open>None\<close> when
  \<^verbatim>\<open>getUser\<close> finds none), \<open>selectedIngredient\<close> the chosen ingredient (\<open>None\<close> for the
  empty selection), \<open>quantity\<close> the parsed quantity, \<open>unit\<close> the unit field, and
  \<open>new_id\<close> the identifier that \<^verbatim>\<open>uuid_generate_v4()\<close> draws for the row. Every error ends
  in a toast and the database is not changed.
\<close>

definition addToPantry ::
  "database \<Rightarrow> uuid option \<Rightarrow> uuid option \<Rightarrow> rat option \<Rightarrow> string \<Rightarrow> uuid \<Rightarrow> error + database" where
  "addToPantry db user selectedIngredient quantity unit new_id =
     (case selectedIngredient of
        None \<Rightarrow> Inl NoIngredientSelected
      | Some ing \<Rightarrow>
          (case user of
             None \<Rightarrow> Inl NotAuthenticated
           | Some uid \<Rightarrow>
               insert_user_pantry db
                 \<lparr> up_id = new_id, up_user_id = uid, up_ingredient_id = ing,
                   up_quantity = quantity, up_unit = (if unit = [] then None else Some unit) \<rparr>))"

section \<open>Example databases\<close>

text \<open>
  One recipe, Omelette, with six components. Alice (user 1) owns Eggs, Cheese and Milk;
  Bob (user 2) owns nothing. Nobody has a restriction.
\<close>

definition omelette_db :: database where
  "omelette_db = \<lparr>
     profiles = [\<lparr> p_id = 1, p_email = ''alice@example.org'', p_full_name = None \<rparr>,
                 \<lparr> p_id = 2, p_email = ''bob@example.org'', p_full_name = None \<rparr>],
     ingredients = [\<lparr> i_id = 1, i_name = ''Eggs'', i_category = None \<rparr>,
                    \<lparr> i_id = 2, i_name = ''Cheese'', i_category = None \<rparr>,
                    \<lparr> i_id = 3, i_name = ''Milk'', i_category = None \<rparr>,
                    \<lparr> i_id = 4, i_name = ''Butter'', i_category = None \<rparr>,
                    \<lparr> i_id = 5, i_name = ''Salt'', i_category = None \<rparr>,
                    \<lparr> i_id = 6, i_name = ''Pepper'', i_category = None \<rparr>],
     recipes = [\<lparr> r_id = 1, r_title = ''Omelette'', r_description = None, r_instructions = None,
                  r_prep_time = None, r_cook_time = None, r_servings = None, r_image_url = None \<rparr>,
                \<lparr> r_id = 2, r_title = ''Water'', r_description = None, r_instructions = None,
                  r_prep_time = None, r_cook_time = None, r_servings = None, r_image_url = None \<rparr>],
     user_pantry = [\<lparr> up_id = 1, up_user_id = 1, up_ingredient_id = 1, up_quantity = Some 1, up_unit = None \<rparr>,
                    \<lparr> up_id = 2, up_user_id = 1, up_ingredient_id = 2, up_quantity = Some 1, up_unit = None \<rparr>,
                    \<lparr> up_id = 3, up_user_id = 1, up_ingredient_id = 3, up_quantity = Some 1, up_unit = None \<rparr>],
     recipe_components =
       [\<lparr> rc_id = 1, rc_recipe_id = 1, rc_ingredient_id = 1, rc_quantity = 3, rc_unit = None \<rparr>,
        \<lparr> rc_id = 2, rc_recipe_id = 1, rc_ingredient_id = 2, rc_quantity = 50, rc_unit = None \<rparr>,
        \<lparr> rc_id = 3, rc_recipe_id = 1, rc_ingredient_id = 3, rc_quantity = 50, rc_unit = None \<rparr>,
        \<lparr> rc_id = 4, rc_recipe_id = 1, rc_ingredient_id = 4, rc_quantity = 1, rc_unit = None \<rparr>,
        \<lparr> rc_id = 5, rc_recipe_id = 1, rc_ingredient_id = 5, rc_quantity = 1, rc_unit = None \<rparr>,
        \<lparr> rc_id = 6, rc_recipe_id = 1, rc_ingredient_id = 6, rc_quantity = 1, rc_unit = None \<rparr>],
     user_restrictions = [] \<rparr>"

text \<open>The same database after Alice has declared Eggs an allergy.\<close>

definition allergy_db :: database where
  "allergy_db = omelette_db
     \<lparr> user_restrictions :=
         [\<lparr> ur_id = 1, ur_user_id = 1, ur_ingredient_id = 1, ur_restriction_type = Allergy,
            ur_notes = None \<rparr>] \<rparr>"

text \<open>The row of the view for Omelette and Alice in \<open>omelette_db\<close>.\<close>

definition omelette_row :: recommendation where
  "omelette_row =
     \<lparr> rid = 1, title = ''Omelette'', description = None, instructions = None, prep_time = None,
       cook_time = None, servings = None, image_url = None, user_id = Some 1,
       v_score = Some 100, missing_ingredients = None, total_ingredients = 3,
       owned_ingredients = 3 \<rparr>"

text \<open>The row of the view for Omelette and the NULL user in \<open>omelette_db\<close>.\<close>

definition omelette_null_row :: recommendation where
  "omelette_null_row =
     \<lparr> rid = 1, title = ''Omelette'', description = None, instructions = None, prep_time = None,
       cook_time = None, servings = None, image_url = None, user_id = None,
       v_score = Some 0,
       missing_ingredients = Some [Some ''Eggs'', Some ''Cheese'', Some ''Milk'', Some ''Butter'',
                                   Some ''Salt'', Some ''Pepper''],
       total_ingredients = 6, owned_ingredients = 0 \<rparr>"

text \<open>A joined row of \<open>omelette_db\<close>: Butter, which Omelette needs and Bob does not own.\<close>

definition butter_for_bob :: joined where
  "butter_for_bob =
     (\<lparr> r_id = 1, r_title = ''Omelette'', r_description = None, r_instructions = None,
        r_prep_time = None, r_cook_time = None, r_servings = None, r_image_url = None \<rparr>,
      \<lparr> rc_id = 4, rc_recipe_id = 1, rc_ingredient_id = 4, rc_quantity = 1, rc_unit = None \<rparr>,
      \<lparr> i_id = 4, i_name = ''Butter'', i_category = None \<rparr>,
      \<lparr> p_id = 2, p_email = ''bob@example.org'', p_full_name = None \<rparr>,
      None)"

text \<open>\<open>omelette_db\<close> after Alice has added Butter to her pantry.\<close>

definition butter_db :: database where
  "butter_db = omelette_db
     \<lparr> user_pantry := user_pantry omelette_db @
         [\<lparr> up_id = 4, up_user_id = 1, up_ingredient_id = 4, up_quantity = Some 1,
            up_unit = Some ''tbsp'' \<rparr>] \<rparr>"

text \<open>The row of the view for Omelette and Alice in \<open>allergy_db\<close>.\<close>

definition allergy_row :: recommendation where
  "allergy_row =
     \<lparr> rid = 1, title = ''Omelette'', description = None, instructions = None, prep_time = None,
       cook_time = None, servings = None, image_url = None, user_id = Some 1,
       v_score = Some 100, missing_ingredients = None, total_ingredients = 2,
       owned_ingredients = 2 \<rparr>"



section \<open>Facts about the view\<close>

lemma left_join_Some_iff:
  "Some e \<in> set (left_join_user_pantry db rc p) \<longleftrightarrow>
     e \<in> set (user_pantry db) \<and> rc_ingredient_id rc = up_ingredient_id e \<and> p_id p = up_user_id e"
  by (auto simp: left_join_user_pantry_def Let_def filter_empty_conv)

lemma left_join_None_iff:
  "None \<in> set (left_join_user_pantry db rc p) \<longleftrightarrow>
     (\<forall>e \<in> set (user_pantry db). \<not> (rc_ingredient_id rc = up_ingredient_id e \<and> p_id p = up_user_id e))"
  by (auto simp: left_join_user_pantry_def Let_def filter_empty_conv)

lemma from_clause_iff:
  "(r, rc, i, p, up) \<in> set (from_clause db) \<longleftrightarrow>
     r \<in> set (recipes db) \<and> rc \<in> set (recipe_components db) \<and> r_id r = rc_recipe_id rc \<and>
     i \<in> set (ingredients db) \<and> rc_ingredient_id rc = i_id i \<and> p \<in> set (profiles db) \<and>
     up \<in> set (left_join_user_pantry db rc p)"
  unfolding from_clause_def by (simp add: image_iff Bex_def) blast

lemma groups_iff:
  "(k, g) \<in> set (groups db) \<longleftrightarrow>
     k \<in> group_by ` set (filter (where_clause db) (from_clause db)) \<and>
     g = filter (\<lambda>j. group_by j = k) (filter (where_clause db) (from_clause db))"
  by (auto simp: groups_def Let_def)

lemma groups_nonempty: "(k, g) \<in> set (groups db) \<Longrightarrow> g \<noteq> []"
  by (auto simp: groups_iff filter_empty_conv)

lemma groups_member:
  "(k, g) \<in> set (groups db) \<Longrightarrow> j \<in> set g \<Longrightarrow>
     j \<in> set (from_clause db) \<and> where_clause db j \<and> group_by j = k"
  by (auto simp: groups_iff)

lemma recipe_recommendations_iff:
  "row \<in> set (recipe_recommendations db) \<longleftrightarrow>
     (\<exists>k g. (k, g) \<in> set (groups db) \<and> having_clause g \<and> row = select_list k g)"
  unfolding recipe_recommendations_def by (simp add: image_iff Bex_def split_beta)

lemma round2_100: "round2 100 = 100"
  by (simp add: round2_def floor_eq_iff)

lemma v_score_expr_full: "0 < n \<Longrightarrow> v_score_expr n n = Some 100"
  by (simp add: v_score_expr_def nullif_def round2_100)

lemma user_id_select_list:
  "user_id (select_list k g) = snd (snd (snd (snd (snd (snd (snd (snd k)))))))"
  by (simp add: select_list_def split_beta)

lemma rid_select_list: "rid (select_list k g) = fst k"
  by (simp add: select_list_def split_beta)

lemma select_list_aggregates:
  "v_score (select_list k g) = v_score_expr (owned_ingredients_expr g) (total_ingredients_expr g)"
  "missing_ingredients (select_list k g) = missing_ingredients_expr g"
  "total_ingredients (select_list k g) = total_ingredients_expr g"
  "owned_ingredients (select_list k g) = owned_ingredients_expr g"
  by (simp_all add: select_list_def split_beta)

lemma user_group_rows:
  assumes kg: "(k, g) \<in> set (groups db)"
    and u: "user_id (select_list k g) = Some u"
    and j: "j \<in> set g"
  shows "\<exists>r rc i p e. j = (r, rc, i, p, Some e) \<and> up_user_id e = u \<and> p_id p = u \<and>
           up_ingredient_id e = rc_ingredient_id rc \<and> e \<in> set (user_pantry db) \<and>
           p \<in> set (profiles db)"
proof -
  obtain r rc i p up where j_eq: "j = (r, rc, i, p, up)"
    by (cases j) auto
  from groups_member [OF kg j] have mem: "j \<in> set (from_clause db)" and key: "group_by j = k"
    by simp_all
  from u key j_eq have "map_option up_user_id up = Some u"
    by (auto simp: user_id_select_list group_by_def)
  then obtain e where up: "up = Some e" and e: "up_user_id e = u"
    by auto
  from mem j_eq up have "p \<in> set (profiles db)" "Some e \<in> set (left_join_user_pantry db rc p)"
    by (simp_all add: from_clause_iff)
  with e j_eq up show ?thesis
    by (auto simp: left_join_Some_iff)
qed

lemma user_group_owned_eq_total:
  assumes kg: "(k, g) \<in> set (groups db)" and u: "user_id (select_list k g) = Some u"
  shows "owned_ingredients_expr g = total_ingredients_expr g"
proof -
  have "map (\<lambda>(r, rc, i, p, up). map_option up_ingredient_id up) g =
        map (\<lambda>(r, rc, i, p, up). Some (rc_ingredient_id rc)) g"
  proof (rule map_cong [OF refl])
    fix j assume "j \<in> set g"
    from user_group_rows [OF kg u this]
    show "(case j of (r, rc, i, p, up) \<Rightarrow> map_option up_ingredient_id up) =
          (case j of (r, rc, i, p, up) \<Rightarrow> Some (rc_ingredient_id rc))"
      by auto
  qed
  then show ?thesis
    unfolding owned_ingredients_expr_def total_ingredients_expr_def by (rule arg_cong)
qed

lemma user_group_missing:
  assumes kg: "(k, g) \<in> set (groups db)" and u: "user_id (select_list k g) = Some u"
  shows "missing_ingredients_expr g = None"
proof -
  have "filter (\<lambda>(r, rc, i, p, up). map_option up_ingredient_id up = None) g = []"
    unfolding filter_empty_conv
  proof
    fix j assume "j \<in> set g"
    from user_group_rows [OF kg u this]
    show "\<not> (case j of (r, rc, i, p, up) \<Rightarrow> map_option up_ingredient_id up = None)"
      by auto
  qed
  then show ?thesis
    by (simp add: missing_ingredients_expr_def array_agg_distinct_def)
qed

lemma set_non_null: "set [v. Some v \<leftarrow> vs] = {v. Some v \<in> set vs}"
  by (auto split: option.splits)

lemma count_distinct_card: "count_distinct vs = card {v. Some v \<in> set vs}"
  by (simp add: count_distinct_def length_remdups_card_conv set_non_null del: set_concat)

lemma count_distinct_pos_iff: "0 < count_distinct vs \<longleftrightarrow> (\<exists>v. Some v \<in> set vs)"
proof -
  have "finite {v. Some v \<in> set vs}"
    unfolding set_non_null [symmetric] by (rule finite_set)
  then show ?thesis
    by (auto simp: count_distinct_card card_gt_0_iff)
qed

lemma total_ingredients_expr_pos: "g \<noteq> [] \<Longrightarrow> 0 < total_ingredients_expr g"
proof -
  assume "g \<noteq> []"
  then have "hd g \<in> set g" by simp
  then have "Some (rc_ingredient_id (fst (snd (hd g)))) \<in>
               set (map (\<lambda>(r, rc, i, p, up). Some (rc_ingredient_id rc)) g)"
    by (force simp: split_beta)
  then show ?thesis
    unfolding total_ingredients_expr_def count_distinct_pos_iff by blast
qed

lemma omelette_view: "recipe_recommendations omelette_db = [omelette_row, omelette_null_row]"
  by code_simp

section \<open>What a user's rows of the view hold\<close>

lemma null_row_lands_in_null_group:
  assumes j: "j \<in> set (filter (where_clause db) (from_clause db))"
    and up: "snd (snd (snd (snd j))) = None"
  shows "\<exists>row \<in> set (recipe_recommendations db). rid row = r_id (fst j) \<and> user_id row = None"
proof -
  let ?rows = "filter (where_clause db) (from_clause db)"
  let ?k = "group_by j"
  let ?g = "filter (\<lambda>x. group_by x = ?k) ?rows"
  from j have kg: "(?k, ?g) \<in> set (groups db)"
    unfolding groups_iff by blast
  have "having_clause ?g"
    unfolding having_clause_def by (rule total_ingredients_expr_pos [OF groups_nonempty [OF kg]])
  with kg have mem: "select_list ?k ?g \<in> set (recipe_recommendations db)"
    unfolding recipe_recommendations_iff by blast
  from up have "user_id (select_list ?k ?g) = None" "rid (select_list ?k ?g) = r_id (fst j)"
    by (simp_all add: user_id_select_list rid_select_list group_by_def split_beta)
  with mem show ?thesis by blast
qed

text \<open>
  C5. Every row of the view \<^verbatim>\<open>recipe_recommendations\<close> whose \<^verbatim>\<open>user_id\<close> is not NULL has
  \<^verbatim>\<open>owned_ingredients\<close> equal to \<^verbatim>\<open>total_ingredients\<close>, a \<^verbatim>\<open>v_score\<close> of 100.00 and a NULL
  \<^verbatim>\<open>missing_ingredients\<close>. The view groups by \<^verbatim>\<open>up.user_id\<close>: a joined row for an ingredient
  that its user does not own has a NULL pantry side, and ends in a row of the view for the same
  recipe whose \<^verbatim>\<open>user_id\<close> is NULL, whoever the user was.
\<close>

theorem per_user_rows_own_everything:
  "(\<forall>row \<in> set (recipe_recommendations db). user_id row \<noteq> None \<longrightarrow>
      owned_ingredients row = total_ingredients row \<and> v_score row = Some 100 \<and>
      missing_ingredients row = None) \<and>
   (\<forall>j \<in> set (filter (where_clause db) (from_clause db)). snd (snd (snd (snd j))) = None \<longrightarrow>
      (\<exists>row \<in> set (recipe_recommendations db). rid row = r_id (fst j) \<and> user_id row = None))"
proof (intro conjI ballI impI)
  fix row assume row: "row \<in> set (recipe_recommendations db)" and "user_id row \<noteq> None"
  then obtain u where u: "user_id row = Some u" by auto
  from row obtain k g where kg: "(k, g) \<in> set (groups db)" and row_eq: "row = select_list k g"
    by (auto simp: recipe_recommendations_iff)
  from u row_eq have u': "user_id (select_list k g) = Some u" by simp
  have eq: "owned_ingredients_expr g = total_ingredients_expr g"
    by (rule user_group_owned_eq_total [OF kg u'])
  have pos: "0 < total_ingredients_expr g"
    by (rule total_ingredients_expr_pos [OF groups_nonempty [OF kg]])
  have miss: "missing_ingredients_expr g = None"
    by (rule user_group_missing [OF kg u'])
  from eq pos miss row_eq
  show "owned_ingredients row = total_ingredients row"  "v_score row = Some 100"
        "missing_ingredients row = None"
    by (simp_all add: select_list_aggregates v_score_expr_full)
next
  fix j assume "j \<in> set (filter (where_clause db) (from_clause db))" "snd (snd (snd (snd j))) = None"
  then show "\<exists>row \<in> set (recipe_recommendations db). rid row = r_id (fst j) \<and> user_id row = None"
    by (rule null_row_lands_in_null_group)
qed

theorem per_user_rows_own_everything_witness:
  "omelette_row \<in> set (recipe_recommendations omelette_db) \<and> user_id omelette_row \<noteq> None \<and>
   owned_ingredients omelette_row = total_ingredients omelette_row \<and>
   v_score omelette_row = Some 100 \<and> missing_ingredients omelette_row = None \<and>
   butter_for_bob \<in> set (filter (where_clause omelette_db) (from_clause omelette_db)) \<and>
   snd (snd (snd (snd butter_for_bob))) = None \<and>
   (\<exists>row \<in> set (recipe_recommendations omelette_db).
      rid row = r_id (fst butter_for_bob) \<and> user_id row = None)"
proof -
  have mem: "omelette_row \<in> set (recipe_recommendations omelette_db)"
    by (simp add: omelette_view)
  have uid: "user_id omelette_row \<noteq> None"
    by (simp add: omelette_row_def)
  have j: "butter_for_bob \<in> set (filter (where_clause omelette_db) (from_clause omelette_db))"
    by code_simp
  have up: "snd (snd (snd (snd butter_for_bob))) = None"
    by (simp add: butter_for_bob_def)
  from per_user_rows_own_everything [of omelette_db] mem uid j up show ?thesis
    by blast
qed

section \<open>Which recipes reach the output\<close>

lemma view_row_has_component:
  assumes "row \<in> set (recipe_recommendations db)"
  shows "\<exists>rc \<in> set (recipe_components db). rc_recipe_id rc = rid row"
proof -
  from assms obtain k g where kg: "(k, g) \<in> set (groups db)" and row_eq: "row = select_list k g"
    by (auto simp: recipe_recommendations_iff)
  from groups_nonempty [OF kg] have "hd g \<in> set g" by simp
  from groups_member [OF kg this]
  have mem: "hd g \<in> set (from_clause db)" and key: "group_by (hd g) = k"
    by simp_all
  obtain r rc i p up where j: "hd g = (r, rc, i, p, up)"
    by (cases "hd g") auto
  from mem j have "rc \<in> set (recipe_components db)" "r_id r = rc_recipe_id rc"
    by (simp_all add: from_clause_iff)
  moreover from key j row_eq have "rid row = r_id r"
    by (auto simp: rid_select_list group_by_def)
  ultimately show ?thesis by auto
qed

lemma set_insert_desc: "set (insert_desc x ys) = insert x (set ys)"
  by (induction ys) auto

lemma set_order_desc: "set (order_desc xs) = set xs"
  by (induction xs) (simp_all add: order_desc_def set_insert_desc)

lemma set_fetchRecommendations:
  "set (fetchRecommendations db u) = {row \<in> set (recipe_recommendations db). user_id row = Some u}"
  by (simp add: fetchRecommendations_def set_order_desc)

text \<open>
  C6. A recipe whose Requirement Set is empty (no row of \<^verbatim>\<open>recipe_components\<close> names it) has
  no row in the view, and so none in the recommendation output of any user.
\<close>

theorem no_requirements_never_recommended:
  assumes "requirement_set db recipe = []"
  shows "(\<forall>row \<in> set (recipe_recommendations db). rid row \<noteq> recipe) \<and>
         (\<forall>u. \<forall>row \<in> set (fetchRecommendations db u). rid row \<noteq> recipe)"
proof -
  have view: "rid row \<noteq> recipe" if "row \<in> set (recipe_recommendations db)" for row
  proof
    assume "rid row = recipe"
    with view_row_has_component [OF that]
    obtain rc where "rc \<in> set (recipe_components db)" "rc_recipe_id rc = recipe"
      by auto
    then have "rc_ingredient_id rc \<in> set (requirement_set db recipe)"
      by (simp add: requirement_set_def)
    with assms show False by simp
  qed
  then show ?thesis
    by (simp add: set_fetchRecommendations)
qed

theorem no_requirements_never_recommended_witness:
  "requirement_set omelette_db 2 = [] \<and>
   \<not> (\<exists>row \<in> set (recipe_recommendations omelette_db). rid row = 2) \<and>
   \<not> (\<exists>row \<in> set (fetchRecommendations omelette_db 1). rid row = 2) \<and>
   list_ex (\<lambda>r. r_id r = 2) (recipes omelette_db)"
proof -
  have empty: "requirement_set omelette_db 2 = []"
    by code_simp
  have listed: "list_ex (\<lambda>r. r_id r = 2) (recipes omelette_db)"
    by code_simp
  from no_requirements_never_recommended [OF empty] empty listed show ?thesis
    by blast
qed

text \<open>
  C7. Division by zero cannot occur in the \<^verbatim>\<open>v_score\<close> computation: in every row that the
  view emits the denominator \<^verbatim>\<open>COUNT(DISTINCT rc.ingredient_id)\<close> is positive, so \<^verbatim>\<open>NULLIF\<close>
  returns the count itself and the score is not NULL.
\<close>

theorem division_guard_unreachable:
  "\<forall>row \<in> set (recipe_recommendations db).
     0 < total_ingredients row \<and>
     nullif (total_ingredients row) 0 = Some (total_ingredients row) \<and>
     (\<exists>score. v_score row = Some score)"
proof
  fix row assume "row \<in> set (recipe_recommendations db)"
  then obtain k g where "having_clause g" and row_eq: "row = select_list k g"
    by (auto simp: recipe_recommendations_iff)
  then have "0 < total_ingredients_expr g"
    by (simp add: having_clause_def)
  with row_eq show "0 < total_ingredients row \<and>
     nullif (total_ingredients row) 0 = Some (total_ingredients row) \<and>
     (\<exists>score. v_score row = Some score)"
    by (simp add: select_list_aggregates v_score_expr_def nullif_def)
qed

theorem division_guard_unreachable_witness:
  "omelette_null_row \<in> set (recipe_recommendations omelette_db) \<and>
   total_ingredients omelette_null_row = 6 \<and>
   nullif (total_ingredients omelette_null_row) 0 = Some 6 \<and>
   v_score omelette_null_row = Some 0"
proof -
  have mem: "omelette_null_row \<in> set (recipe_recommendations omelette_db)"
    by (simp add: omelette_view)
  have vals: "total_ingredients omelette_null_row = 6" "v_score omelette_null_row = Some 0"
    by (simp_all add: omelette_null_row_def)
  from division_guard_unreachable [of omelette_db] mem vals show ?thesis
    by force
qed

text \<open>
  C10. For a user identifier that no row of \<^verbatim>\<open>profiles\<close> carries, the dashboard's query
  returns no row.
\<close>

theorem unknown_user_empty_result:
  assumes "userId \<notin> p_id ` set (profiles db)"
  shows "fetchRecommendations db userId = []"
proof -
  have "filter (\<lambda>row. user_id row = Some userId) (recipe_recommendations db) = []"
    unfolding filter_empty_conv
  proof
    fix row assume row: "row \<in> set (recipe_recommendations db)"
    show "user_id row \<noteq> Some userId"
    proof
      assume u: "user_id row = Some userId"
      from row obtain k g where kg: "(k, g) \<in> set (groups db)" and row_eq: "row = select_list k g"
        by (auto simp: recipe_recommendations_iff)
      from groups_nonempty [OF kg] have "hd g \<in> set g" by simp
      from user_group_rows [OF kg u [unfolded row_eq] this]
      obtain p where "p \<in> set (profiles db)" "p_id p = userId"
        by auto
      with assms show False by auto
    qed
  qed
  then show ?thesis
    by (simp add: fetchRecommendations_def order_desc_def)
qed

theorem unknown_user_empty_result_witness:
  "3 \<notin> p_id ` set (profiles omelette_db) \<and> fetchRecommendations omelette_db 3 = [] \<and>
   recipe_recommendations omelette_db \<noteq> []"
proof -
  have unknown: "3 \<notin> p_id ` set (profiles omelette_db)"
    by (simp add: omelette_db_def)
  have "recipe_recommendations omelette_db \<noteq> []"
    by (simp add: omelette_view)
  with unknown unknown_user_empty_result [OF unknown] show ?thesis
    by simp
qed

section \<open>The order of the output\<close>

lemma score_ge_refl: "score_ge a a"
  by (cases a) auto










section \<open>Adding an ingredient to the pantry\<close>

lemma insert_user_pantry_Inr:
  "insert_user_pantry db e = Inr db' \<Longrightarrow> db' = db\<lparr>user_pantry := user_pantry db @ [e]\<rparr>"
  by (auto simp: insert_user_pantry_def split: if_splits)

lemma addToPantry_Inr:
  assumes "addToPantry db user selectedIngredient quantity unit new_id = Inr db'"
  shows "\<exists>e. db' = db\<lparr>user_pantry := user_pantry db @ [e]\<rparr>"
  using assms
  by (auto simp: addToPantry_def split: option.splits dest: insert_user_pantry_Inr)

lemma user_row_survives_insert:
  assumes row: "row \<in> set (recipe_recommendations db)" and u: "user_id row = Some u"
  shows "\<exists>row' \<in> set (recipe_recommendations (db\<lparr>user_pantry := user_pantry db @ [e]\<rparr>)).
           rid row' = rid row \<and> user_id row' = Some u"
proof -
  let ?db' = "db\<lparr>user_pantry := user_pantry db @ [e]\<rparr>"
  from row obtain k g where kg: "(k, g) \<in> set (groups db)" and row_eq: "row = select_list k g"
    by (auto simp: recipe_recommendations_iff)
  from groups_nonempty [OF kg] have hd: "hd g \<in> set g" by simp
  from groups_member [OF kg hd]
  have mem: "hd g \<in> set (from_clause db)" and wh: "where_clause db (hd g)"
    and key: "group_by (hd g) = k"
    by simp_all
  from user_group_rows [OF kg u [unfolded row_eq] hd]
  obtain r rc i p x where j: "hd g = (r, rc, i, p, Some x)"
    by auto
  from mem j have "(r, rc, i, p, Some x) \<in> set (from_clause ?db')"
    by (simp add: from_clause_iff left_join_Some_iff)
  moreover from wh j have "where_clause ?db' (r, rc, i, p, Some x)"
    by (simp add: where_clause_def)
  ultimately have in_rows: "hd g \<in> set (filter (where_clause ?db') (from_clause ?db'))"
    using j by simp
  let ?g' = "filter (\<lambda>x. group_by x = k) (filter (where_clause ?db') (from_clause ?db'))"
  from in_rows key have kg': "(k, ?g') \<in> set (groups ?db')"
    unfolding groups_iff by blast
  have "having_clause ?g'"
    unfolding having_clause_def by (rule total_ingredients_expr_pos [OF groups_nonempty [OF kg']])
  with kg' have "select_list k ?g' \<in> set (recipe_recommendations ?db')"
    unfolding recipe_recommendations_iff by blast
  moreover from u row_eq have "rid (select_list k ?g') = rid row" "user_id (select_list k ?g') = Some u"
    by (simp_all add: rid_select_list user_id_select_list)
  ultimately show ?thesis by blast
qed

lemma user_row_full_score:
  assumes row: "row \<in> set (recipe_recommendations db)" and u: "user_id row = Some u"
  shows "v_score row = Some 100"
proof -
  from row obtain k g where kg: "(k, g) \<in> set (groups db)" and row_eq: "row = select_list k g"
    by (auto simp: recipe_recommendations_iff)
  from u row_eq have u': "user_id (select_list k g) = Some u" by simp
  have "owned_ingredients_expr g = total_ingredients_expr g"
    by (rule user_group_owned_eq_total [OF kg u'])
  moreover have "0 < total_ingredients_expr g"
    by (rule total_ingredients_expr_pos [OF groups_nonempty [OF kg]])
  ultimately show ?thesis
    using row_eq by (simp add: select_list_aggregates v_score_expr_full)
qed

text \<open>
  C9. When a user adds to the pantry an ingredient that a recipe requires, and nothing else
  changes, the recipe's \<^verbatim>\<open>v_score\<close> in that user's recommendation output does not decrease:
  a recipe that was in the output is still there, and its score afterwards is at least its
  score before.
\<close>

theorem adding_required_ingredient_never_lowers_v_score:
  assumes add: "addToPantry db (Some u) (Some ing) quantity unit new_id = Inr db'"
    and req: "ing \<in> set (requirement_set db recipe)"
  shows "(\<forall>row \<in> set (fetchRecommendations db u). rid row = recipe \<longrightarrow>
            (\<exists>row' \<in> set (fetchRecommendations db' u). rid row' = recipe)) \<and>
         (\<forall>row \<in> set (fetchRecommendations db u). \<forall>row' \<in> set (fetchRecommendations db' u).
            rid row = recipe \<and> rid row' = recipe \<longrightarrow>
            (\<exists>s s'. v_score row = Some s \<and> v_score row' = Some s' \<and> s \<le> s'))"
proof (intro conjI ballI impI)
  from addToPantry_Inr [OF add] obtain e where db': "db' = db\<lparr>user_pantry := user_pantry db @ [e]\<rparr>"
    by blast
  fix row assume "row \<in> set (fetchRecommendations db u)" and rid: "rid row = recipe"
  then have "row \<in> set (recipe_recommendations db)" "user_id row = Some u"
    by (simp_all add: set_fetchRecommendations)
  from user_row_survives_insert [OF this, of e] rid db'
  show "\<exists>row' \<in> set (fetchRecommendations db' u). rid row' = recipe"
    by (auto simp: set_fetchRecommendations)
next
  fix row row'
  assume "row \<in> set (fetchRecommendations db u)" "row' \<in> set (fetchRecommendations db' u)"
  then have "v_score row = Some 100" "v_score row' = Some 100"
    by (auto simp: set_fetchRecommendations intro: user_row_full_score)
  then show "\<exists>s s'. v_score row = Some s \<and> v_score row' = Some s' \<and> s \<le> s'"
    by simp
qed

theorem adding_required_ingredient_never_lowers_v_score_witness:
  "addToPantry omelette_db (Some 1) (Some 4) (Some 1) ''tbsp'' 4 = Inr butter_db \<and>
   4 \<in> set (requirement_set omelette_db 1) \<and>
   omelette_row \<in> set (fetchRecommendations omelette_db 1) \<and> rid omelette_row = 1 \<and>
   v_score omelette_row = Some 100 \<and>
   (\<exists>row' \<in> set (fetchRecommendations butter_db 1).
      rid row' = 1 \<and> (\<exists>s'. v_score row' = Some s' \<and> 100 \<le> s'))"
proof -
  have add: "addToPantry omelette_db (Some 1) (Some 4) (Some 1) ''tbsp'' 4 = Inr butter_db"
    by code_simp
  have req: "4 \<in> set (requirement_set omelette_db 1)"
    by code_simp
  have before: "fetchRecommendations omelette_db 1 = [omelette_row]"
    by code_simp
  have row: "rid omelette_row = 1" "v_score omelette_row = Some 100"
    by (simp_all add: omelette_row_def)
  from adding_required_ingredient_never_lowers_v_score [OF add req] before row
  obtain row' where "row' \<in> set (fetchRecommendations butter_db 1)" "rid row' = 1"
    by auto
  with adding_required_ingredient_never_lowers_v_score [OF add req] before row add req
  show ?thesis
    by fastforce
qed


section \<open>The view on the example databases\<close>

text \<open>
  C1. In \<open>omelette_db\<close> the Requirement Set of Omelette has six distinct ingredients, Alice owns
  three of them and restricts none. Her row of the output reports \<^verbatim>\<open>total_ingredients = 3\<close>, the
  number of required ingredients she owns, and not the six of the Requirement Set.
\<close>

theorem total_ingredients_counts_owned_rows_only:
  "map (\<lambda>row. (rid row, total_ingredients row, owned_ingredients row))
       (fetchRecommendations omelette_db 1) = [(1, 3, 3)] \<and>
   length (requirement_set omelette_db 1) = 6 \<and>
   length (filter (\<lambda>ing. list_ex (\<lambda>up. up_user_id up = 1 \<and> up_ingredient_id up = ing)
                                 (user_pantry omelette_db))
                  (requirement_set omelette_db 1)) = 3 \<and>
   user_restrictions omelette_db = []"
  by code_simp

text \<open>
  C2. In \<open>allergy_db\<close> Omelette requires Eggs and Alice has declared Eggs an allergy. Omelette
  is still in her output: \<^verbatim>\<open>WHERE\<close> removed the joined row of Eggs only, and the rows of Cheese
  and Milk make a group with a score of 100.00.
\<close>

theorem restricted_recipe_still_recommended:
  "1 \<in> set (requirement_set allergy_db 1) \<and>
   list_ex (\<lambda>ur. ur_user_id ur = 1 \<and> ur_ingredient_id ur = 1 \<and> ur_restriction_type ur = Allergy)
           (user_restrictions allergy_db) \<and>
   fetchRecommendations allergy_db 1 = [allergy_row]"
  by code_simp

text \<open>
  C3. The Omelette scenario: six required ingredients, of which Alice owns Eggs, Cheese and Milk,
  and no restriction. Her output is the single row \<open>omelette_row\<close>, with
  \<^verbatim>\<open>owned_ingredients = 3\<close>, \<^verbatim>\<open>total_ingredients = 3\<close>, \<^verbatim>\<open>v_score = 100.00\<close> and a NULL
  \<^verbatim>\<open>missing_ingredients\<close>, where the scenario expects 3, 6, 50.00 and Butter, Salt, Pepper.
\<close>

theorem omelette_scenario_outcome:
  "map i_name (ingredients omelette_db) = [''Eggs'', ''Cheese'', ''Milk'', ''Butter'', ''Salt'', ''Pepper''] \<and>
   requirement_set omelette_db 1 = [1, 2, 3, 4, 5, 6] \<and>
   map up_ingredient_id (filter (\<lambda>up. up_user_id up = 1) (user_pantry omelette_db)) = [1, 2, 3] \<and>
   fetchRecommendations omelette_db 1 = [omelette_row] \<and>
   owned_ingredients omelette_row = 3 \<and> total_ingredients omelette_row = 3 \<and>
   v_score omelette_row = Some 100 \<and> missing_ingredients omelette_row = None"
  by code_simp

text \<open>
  C4. Bob has a profile, an empty pantry and no restriction, and Omelette has six requirements.
  Bob's output is empty: all his joined rows have a NULL \<^verbatim>\<open>up.user_id\<close> and are grouped into
  the row of the NULL user, which the dashboard's query does not select.
\<close>

theorem empty_pantry_user_gets_no_rows:
  "list_ex (\<lambda>p. p_id p = 2) (profiles omelette_db) \<and>
   filter (\<lambda>up. up_user_id up = 2) (user_pantry omelette_db) = [] \<and>
   filter (\<lambda>ur. ur_user_id ur = 2) (user_restrictions omelette_db) = [] \<and>
   length (requirement_set omelette_db 1) = 6 \<and>
   fetchRecommendations omelette_db 2 = [] \<and>
   filter (\<lambda>row. user_id row = None) (recipe_recommendations omelette_db) = [omelette_null_row]"
  by code_simp

end
